theory Spec2Isabelle
  imports Main "HOL-Library.AList" "HOL-Library.List_Lexorder" "HOL-Library.Char_ord"
begin

section \<open>The IGraalVM kernel installer (install.py)\<close>

text \<open>
  The installer is a straight-line script. Its Python dictionaries are association lists
  in insertion order (\<open>map_of\<close> reads a key, \<open>AList.update\<close> is \<open>d[k] = v\<close>), its
  strings are \<open>string\<close>, and what it does to the outside world is a list of completed
  effects followed by the way the process ended.
\<close>

subsection \<open>The alias and name tables\<close>

definition ALIASES :: "(string \<times> (string \<times> string) list) list" where
  "ALIASES = [(''IJAVA_TIMEOUT'', [(''NO_TIMEOUT'', ''-1'')])]"

definition NAME_MAP :: "(string \<times> string) list" where
  "NAME_MAP = [(''timeout'', ''IJAVA_TIMEOUT'')]"

subsection \<open>Effects and exceptions\<close>

datatype effect =
    Print string
  | Print_languages "string list"
  | Usage_error string
  | Set_environ string string
  | Run "string list"
  | Mkdir string
  | Move string string
  | Chdir string
  | Remove string
  | Install_kernel_spec string string bool string
  | Write_file string string

datatype exn =
    KeyError string
  | ValueError string
  | AttributeError string
  | ArgumentError string
  | OSError effect

datatype outcome =
    Finished
  | SystemExit "int option"
  | Raised exn

text \<open>The status the interpreter hands to the operating system.\<close>

fun exit_status :: "outcome \<Rightarrow> int" where
  "exit_status Finished = 0"
| "exit_status (SystemExit None) = 0"
| "exit_status (SystemExit (Some n)) = n"
| "exit_status (Raised e) = 1"

subsection \<open>type_assertion and its checker\<close>

text \<open>
  \<open>type_fn\<close> is the conversion whose result \<open>checker\<close> throws away: only whether it
  accepts the value matters. \<open>str\<close> accepts every string.
\<close>

definition str_type :: "string \<Rightarrow> bool" where
  "str_type s = True"

definition checker :: "(string \<times> string) list \<Rightarrow> (string \<Rightarrow> bool) \<Rightarrow> string \<Rightarrow> exn + string" where
  "checker aliases type_fn val =
     (let alias = (case map_of aliases val of Some a \<Rightarrow> a | None \<Rightarrow> val)
      in if type_fn alias then Inr alias else Inl (ValueError alias))"

definition type_assertion :: "string \<Rightarrow> (string \<Rightarrow> bool) \<Rightarrow> exn + (string \<Rightarrow> exn + string)" where
  "type_assertion name type_fn =
     (case map_of NAME_MAP name of
        None \<Rightarrow> Inl (KeyError name)
      | Some env_name \<Rightarrow>
          Inr (checker (case map_of ALIASES env_name of Some a \<Rightarrow> a | None \<Rightarrow> []) type_fn))"

subsection \<open>The EnvVar action\<close>

record envvar =
  option_strings :: "string list"
  dest :: string
  aliases :: "(string \<times> (string \<times> string) list) list"
  name_map :: "(string \<times> string) list"
  list_sep :: "string option"

definition lstrip_dash :: "string \<Rightarrow> string" where
  "lstrip_dash s = dropWhile (\<lambda>c. c = CHR ''-'') s"

fun EnvVar_check :: "(string \<times> string) list \<Rightarrow> string list \<Rightarrow> exn option" where
  "EnvVar_check nm [] = None"
| "EnvVar_check nm (name # names) =
     (if map_of nm (lstrip_dash name) = None then Some (ValueError (lstrip_dash name))
      else EnvVar_check nm names)"

definition EnvVar_init ::
  "string list \<Rightarrow> string \<Rightarrow> (string \<times> (string \<times> string) list) list option \<Rightarrow>
   (string \<times> string) list option \<Rightarrow> string option \<Rightarrow> exn + envvar" where
  "EnvVar_init opts d als nm sep =
     (let als' = (case als of None \<Rightarrow> [] | Some a \<Rightarrow> a);
          nm' = (case nm of None \<Rightarrow> [] | Some m \<Rightarrow> m)
      in case EnvVar_check nm' opts of
           Some e \<Rightarrow> Inl e
         | None \<Rightarrow> Inr \<lparr>option_strings = opts, dest = d, aliases = als', name_map = nm',
                         list_sep = sep\<rparr>)"

definition EnvVar_call ::
  "envvar \<Rightarrow> (string \<times> string) list option \<Rightarrow> string \<Rightarrow> string option \<Rightarrow>
   exn + (string \<times> string) list" where
  "EnvVar_call self ns_env val option_string =
     (case option_string of
        None \<Rightarrow> Inl (ValueError ''option_string is required'')
      | Some ostr \<Rightarrow>
          (let env0 = (case ns_env of None \<Rightarrow> [] | Some e \<Rightarrow> e);
               name = lstrip_dash ostr
           in case map_of (name_map self) name of
                None \<Rightarrow> Inl (KeyError name)
              | Some env_var \<Rightarrow>
                  (let val' =
                     (case list_sep self of
                        None \<Rightarrow> val
                      | Some sep \<Rightarrow>
                          if sep = [] then val
                          else (case map_of env0 env_var of
                                  None \<Rightarrow> val
                                | Some old \<Rightarrow> old @ sep @ val))
                   in Inr (AList.update env_var val' env0))))"

subsection \<open>The argument parser\<close>

text \<open>
  The command line is taken after argparse has recognised its options: a list of option
  occurrences in command-line order. What the script configures is modelled: the defaults,
  the mutually exclusive group, the type conversion and the action of \<open>--timeout\<close>.

  argparse counts an option of the exclusive group as present when its value is not the
  very object that is its default. A \<open>store_true\<close> option always counts. For
  \<open>--prefix\<close> given the empty string the answer depends on the interpreter, so it is the
  parameter \<open>same\<close>: whether that empty string is the default's object.
\<close>

datatype opt =
    Opt_user
  | Opt_sys_prefix
  | Opt_prefix string
  | Opt_timeout string
  | Opt_graalvm string
  | Opt_native string

datatype location = Loc_user | Loc_sys_prefix | Loc_prefix

record args =
  user :: bool
  sys_prefix :: bool
  prefix :: string
  env :: "(string \<times> string) list option"
  graalvm :: "string option"
  native :: "string option"

definition defaults :: args where
  "defaults = \<lparr>user = False, sys_prefix = False, prefix = [], env = None,
                graalvm = None, native = None\<rparr>"

definition exclusive ::
  "location \<Rightarrow> bool \<Rightarrow> location list \<Rightarrow> exn + location list" where
  "exclusive l counted seen =
     (if counted then
        (if list_ex (\<lambda>l'. l' \<noteq> l) seen then Inl (ArgumentError ''not allowed with argument'')
         else Inr (List.insert l seen))
      else Inr seen)"

definition timeout_action :: "exn + envvar" where
  "timeout_action = EnvVar_init [''--timeout''] ''env'' (Some ALIASES) (Some NAME_MAP) None"

definition timeout_type :: "exn + (string \<Rightarrow> exn + string)" where
  "timeout_type = type_assertion ''timeout'' str_type"

fun take_action :: "bool \<Rightarrow> args \<times> location list \<Rightarrow> opt \<Rightarrow> exn + args \<times> location list" where
  "take_action same (ns, seen) Opt_user =
     (case exclusive Loc_user True seen of
        Inl e \<Rightarrow> Inl e
      | Inr seen' \<Rightarrow> Inr (ns\<lparr>user := True\<rparr>, seen'))"
| "take_action same (ns, seen) Opt_sys_prefix =
     (case exclusive Loc_sys_prefix True seen of
        Inl e \<Rightarrow> Inl e
      | Inr seen' \<Rightarrow> Inr (ns\<lparr>sys_prefix := True\<rparr>, seen'))"
| "take_action same (ns, seen) (Opt_prefix p) =
     (case exclusive Loc_prefix (\<not> (same \<and> p = [])) seen of
        Inl e \<Rightarrow> Inl e
      | Inr seen' \<Rightarrow> Inr (ns\<lparr>prefix := p\<rparr>, seen'))"
| "take_action same (ns, seen) (Opt_timeout v) =
     (case timeout_type of
        Inl e \<Rightarrow> Inl e
      | Inr check \<Rightarrow>
          (case timeout_action of
             Inl e \<Rightarrow> Inl e
           | Inr act \<Rightarrow>
               (case check v of
                  Inl e \<Rightarrow> Inl (ArgumentError ''invalid value'')
                | Inr alias \<Rightarrow>
                    (case EnvVar_call act (env ns) alias (Some ''--timeout'') of
                       Inl e \<Rightarrow> Inl e
                     | Inr env' \<Rightarrow> Inr (ns\<lparr>env := Some env'\<rparr>, seen)))))"
| "take_action same (ns, seen) (Opt_graalvm g) = Inr (ns\<lparr>graalvm := Some g\<rparr>, seen)"
| "take_action same (ns, seen) (Opt_native n) = Inr (ns\<lparr>native := Some n\<rparr>, seen)"

fun consume :: "bool \<Rightarrow> args \<times> location list \<Rightarrow> opt list \<Rightarrow> exn + args" where
  "consume same st [] = Inr (fst st)"
| "consume same st (x # xs) =
     (case take_action same st x of
        Inl e \<Rightarrow> Inl e
      | Inr st' \<Rightarrow> consume same st' xs)"

definition parse_args :: "bool \<Rightarrow> opt list \<Rightarrow> exn + args" where
  "parse_args same argv = consume same (defaults, []) argv"

text \<open>Lines 116 to 121: an absent \<open>env\<close> becomes the empty dictionary, and the user
  installation is the default.\<close>

definition apply_defaults :: "args \<Rightarrow> args" where
  "apply_defaults a =
     (let a1 = (if env a = None then a\<lparr>env := Some []\<rparr> else a)
      in if \<not> sys_prefix a1 \<and> prefix a1 = [] then a1\<lparr>user := True\<rparr> else a1)"

subsection \<open>json.dump with indent and sort_keys\<close>

text \<open>
  The descriptor is a dictionary of strings, a list of strings and a nested dictionary.
  \<open>dumps\<close> follows the encoder of the standard library for these three shapes: with an
  indent the items are separated by a comma and a line break, a key from its value by a
  colon and a blank, an empty container is written without a line break, and with
  \<open>sort_keys\<close> the items of each dictionary are written in the order of their keys.
  Strings are escaped as \<open>ensure_ascii\<close> does.
\<close>

datatype json = JStr string | JList "json list" | JDict "(string \<times> json) list"

definition hex_digit :: "nat \<Rightarrow> char" where
  "hex_digit n = ''0123456789abcdef'' ! (n mod 16)"

definition escape_char :: "char \<Rightarrow> string" where
  "escape_char c =
     (if c = CHR 0x5C then [CHR 0x5C, CHR 0x5C]
      else if c = CHR 0x22 then [CHR 0x5C, CHR 0x22]
      else if c = CHR 0x08 then [CHR 0x5C, CHR ''b'']
      else if c = CHR 0x0C then [CHR 0x5C, CHR ''f'']
      else if c = CHR 0x0A then [CHR 0x5C, CHR ''n'']
      else if c = CHR 0x0D then [CHR 0x5C, CHR ''r'']
      else if c = CHR 0x09 then [CHR 0x5C, CHR ''t'']
      else if (of_char c :: nat) < 32 \<or> 126 < (of_char c :: nat) then
        [CHR 0x5C, CHR ''u'', CHR ''0'', CHR ''0'',
         hex_digit (of_char c div 16), hex_digit (of_char c)]
      else [c])"

definition encode_str :: "string \<Rightarrow> string" where
  "encode_str s = [CHR 0x22] @ concat (map escape_char s) @ [CHR 0x22]"

definition newline_indent :: "nat \<Rightarrow> nat \<Rightarrow> string" where
  "newline_indent indent level = CHR 0x0A # replicate (indent * level) CHR '' ''"

fun join_items :: "string \<Rightarrow> string list \<Rightarrow> string" where
  "join_items sep [] = []"
| "join_items sep [x] = x"
| "join_items sep (x # y # ys) = x @ sep @ join_items sep (y # ys)"

definition items_in_order :: "bool \<Rightarrow> (string \<times> 'a) list \<Rightarrow> (string \<times> 'a) list" where
  "items_in_order sort_keys kvs = (if sort_keys then sort_key fst kvs else kvs)"

lemma items_in_order_set [simp]: "set (items_in_order sk kvs) = set kvs"
  by (simp add: items_in_order_def)

function dumps :: "nat \<Rightarrow> bool \<Rightarrow> nat \<Rightarrow> json \<Rightarrow> string" where
  "dumps indent sort_keys level (JStr s) = encode_str s"
| "dumps indent sort_keys level (JList xs) =
     (if xs = [] then ''[]''
      else ''['' @ newline_indent indent (Suc level)
           @ join_items ('','' @ newline_indent indent (Suc level))
               (map (\<lambda>x. dumps indent sort_keys (Suc level) x) xs)
           @ newline_indent indent level @ '']'')"
| "dumps indent sort_keys level (JDict kvs) =
     (if kvs = [] then ''{}''
      else ''{'' @ newline_indent indent (Suc level)
           @ join_items ('','' @ newline_indent indent (Suc level))
               (map (\<lambda>kv. encode_str (fst kv) @ '': '' @ dumps indent sort_keys (Suc level) (snd kv))
                  (items_in_order sort_keys kvs))
           @ newline_indent indent level @ ''}'')"
  by pat_completeness auto

lemma size_json_elem: "x \<in> set xs \<Longrightarrow> size x < Suc (size_list size xs)"
  by (induction xs) (auto simp: less_Suc_eq_le)

lemma size_json_item: "kv \<in> set kvs \<Longrightarrow> size (snd kv) < Suc (size_list (size_prod (\<lambda>_. 0) size) kvs)"
  by (induction kvs) (auto simp: less_Suc_eq_le)

termination dumps
proof (relation "measure (\<lambda>(i, sk, l, j). size j)", goal_cases)
  case 1
  show ?case by simp
next
  case (2 indent sort_keys level xs x)
  then show ?case using size_json_elem [of x xs] by simp
next
  case (3 indent sort_keys level kvs kv)
  then show ?case using size_json_item [of kv kvs] by simp
qed

subsection \<open>The world of one run\<close>

text \<open>
  What the script reads from its surroundings: the process environment, the directory of
  the script, \<open>sys.prefix\<close>, whether a path exists, the return code of a spawned
  command, the destination the kernel-spec manager reports, and whether an operation
  raises. An operation that raises ends the run with the exception and is not added to
  the completed effects.
\<close>

record world =
  environ :: "(string \<times> string) list"
  script_dir :: string
  sys_prefix_dir :: string
  path_exists :: "string \<Rightarrow> bool"
  returncode :: "string list \<Rightarrow> int"
  kernel_spec_dest :: "string \<Rightarrow> string \<Rightarrow> bool \<Rightarrow> string \<Rightarrow> string"
  raises :: "effect \<Rightarrow> bool"

text \<open>
  A run is the list of its completed effects and the way it ended. \<open>perform\<close> puts one
  operation in front of the rest of the script, \<open>emit\<close> one that cannot fail.
\<close>

type_synonym run = "effect list \<times> outcome"

definition perform :: "world \<Rightarrow> effect \<Rightarrow> run \<Rightarrow> run" where
  "perform w e rest = (if raises w e then ([], Raised (OSError e)) else (e # fst rest, snd rest))"

definition emit :: "effect \<Rightarrow> run \<Rightarrow> run" where
  "emit e rest = (e # fst rest, snd rest)"

text \<open>\<open>os.path.join\<close> of two components, as posixpath computes it.\<close>

definition path_join :: "string \<Rightarrow> string \<Rightarrow> string" where
  "path_join a b =
     (case b of
        c # cs \<Rightarrow>
          if c = CHR ''/'' then b
          else if a = [] \<or> last a = CHR ''/'' then a @ b
          else a @ ''/'' @ b
      | [] \<Rightarrow> if a = [] \<or> last a = CHR ''/'' then a else a @ ''/'')"

text \<open>\<open>str.split\<close> with a one-character separator.\<close>

fun split_str :: "char \<Rightarrow> string \<Rightarrow> string list" where
  "split_str sep [] = [[]]"
| "split_str sep (c # cs) =
     (if c = sep then [] # split_str sep cs
      else (case split_str sep cs of
              [] \<Rightarrow> [[c]]
            | piece # pieces \<Rightarrow> (c # piece) # pieces))"

definition truthy :: "string option \<Rightarrow> bool" where
  "truthy s = (case s of None \<Rightarrow> False | Some v \<Rightarrow> v \<noteq> [])"

subsection \<open>The descriptor\<close>

definition kernel_args :: "args \<Rightarrow> string \<Rightarrow> string \<Rightarrow> string list" where
  "kernel_args a graalvm_home install_dest =
     (if truthy (native a) then
        [install_dest @ ''/IGraalVM'', ''{connection_file}'']
      else
        [graalvm_home @ ''/bin/java'', ''-jar'', install_dest @ ''/IGraalVM.jar'',
         ''{connection_file}''])"

text \<open>The loop of lines 203 and 204: every item of \<open>args.env\<close> is stored into the
  dictionary under \<open>"env"\<close>.\<close>

definition merge_env :: "(string \<times> string) list \<Rightarrow> (string \<times> string) list \<Rightarrow> (string \<times> string) list" where
  "merge_env kernel_env overrides = fold (\<lambda>kv e. AList.update (fst kv) (snd kv) e) overrides kernel_env"

definition kernel_env :: "string \<Rightarrow> (string \<times> string) list \<Rightarrow> (string \<times> string) list" where
  "kernel_env graalvm_home overrides = merge_env [(''GRAALVM_HOME'', graalvm_home)] overrides"

definition kernel_json :: "args \<Rightarrow> string \<Rightarrow> string \<Rightarrow> (string \<times> string) list \<Rightarrow> json" where
  "kernel_json a graalvm_home install_dest overrides =
     JDict [(''argv'', JList (map JStr (kernel_args a graalvm_home install_dest))),
            (''display_name'', JStr (if truthy (native a) then ''GraalVM Native'' else ''GraalVM'')),
            (''language'', JStr ''GraalVM''),
            (''interrupt_mode'', JStr ''message''),
            (''env'', JDict (map (\<lambda>kv. (fst kv, JStr (snd kv))) (kernel_env graalvm_home overrides)))]"

subsection \<open>The script\<close>

definition guidance :: string where
  "guidance = ''Set GraalVM installation location via --graalvm option, or set GRAALVM_HOME environment variable''"

definition graalvm_home_of :: "args \<Rightarrow> world \<Rightarrow> string option" where
  "graalvm_home_of a w =
     (if \<not> truthy (graalvm a) \<and> map_of (environ w) ''GRAALVM_HOME'' \<noteq> None
      then map_of (environ w) ''GRAALVM_HOME'' else graalvm a)"

definition install_prefix :: "args \<Rightarrow> world \<Rightarrow> string" where
  "install_prefix a w = (if sys_prefix a then sys_prefix_dir w else prefix a)"

definition install_dest_of :: "args \<Rightarrow> world \<Rightarrow> string \<Rightarrow> string" where
  "install_dest_of a w kernel_name =
     kernel_spec_dest w (path_join (script_dir w) ''graalvm'') kernel_name (user a) (install_prefix a w)"

definition install_kernel :: "args \<Rightarrow> world \<Rightarrow> string \<Rightarrow> string \<Rightarrow> run" where
  "install_kernel a w graalvm_home kernel_name =
     (let kernel_dir = path_join (script_dir w) ''graalvm'';
          install_dest = install_dest_of a w kernel_name
      in perform w (Install_kernel_spec kernel_dir kernel_name (user a) (install_prefix a w))
           (case env a of
              None \<Rightarrow> ([], Raised (AttributeError ''items''))
            | Some overrides \<Rightarrow>
                perform w
                  (Write_file (path_join install_dest ''kernel.json'')
                     (dumps 4 True 0 (kernel_json a graalvm_home install_dest overrides)))
                  (emit (Print (''Installed GraalVM kernel into '' @ [CHR 0x22]
                                @ install_dest @ [CHR 0x22]))
                     ([], Finished))))"

definition native_run_args :: "string \<Rightarrow> string list \<Rightarrow> string list" where
  "native_run_args graalvm_home languages =
     [path_join graalvm_home ''bin/native-image'', ''-H:+ReportExceptionStackTraces'',
      ''--no-fallback'', ''--report-unsupported-elements-at-runtime'']
     @ map (\<lambda>language. ''--language:'' @ language) languages
     @ [''-jar'', ''IGraalVM.jar'']"

definition native_image :: "args \<Rightarrow> world \<Rightarrow> string \<Rightarrow> run" where
  "native_image a w graalvm_home =
     (case native a of
        None \<Rightarrow> install_kernel a w graalvm_home ''GraalVM''
      | Some n \<Rightarrow>
          if n = [] then install_kernel a w graalvm_home ''GraalVM''
          else
            (let languages = split_str CHR '','' n;
                 cmd = native_run_args graalvm_home languages
             in emit (Print_languages languages)
                  (perform w (Chdir ''graalvm'')
                     (perform w (Run cmd)
                        (if returncode w cmd \<noteq> 0 then ([], SystemExit (Some (returncode w cmd)))
                         else perform w (Remove ''IGraalVM.jar'')
                                (perform w (Chdir ''..'')
                                   (install_kernel a w graalvm_home ''GraalVMNative'')))))))"

definition build :: "args \<Rightarrow> world \<Rightarrow> string \<Rightarrow> run" where
  "build a w graalvm_home =
     perform w (Set_environ ''JAVA_HOME'' graalvm_home)
       (perform w (Run [''mvn'', ''package''])
          (if returncode w [''mvn'', ''package''] \<noteq> 0
           then ([], SystemExit (Some (returncode w [''mvn'', ''package''])))
           else
             (let current_dir = script_dir w;
                  kernel_dir = path_join current_dir ''graalvm'';
                  move = perform w
                           (Move (path_join current_dir ''target/IGraalVM-1.0-SNAPSHOT.jar'')
                                 (path_join kernel_dir ''IGraalVM.jar''))
                           (native_image a w graalvm_home)
              in if \<not> path_exists w kernel_dir then perform w (Mkdir kernel_dir) move
                 else move)))"

definition main :: "bool \<Rightarrow> opt list \<Rightarrow> world \<Rightarrow> run" where
  "main same argv w =
     (case parse_args same argv of
        Inl (ArgumentError m) \<Rightarrow> ([Usage_error m], SystemExit (Some 2))
      | Inl e \<Rightarrow> ([], Raised e)
      | Inr parsed \<Rightarrow>
          (let a = apply_defaults parsed
           in case graalvm_home_of a w of
                None \<Rightarrow> ([Print guidance], SystemExit None)
              | Some graalvm_home \<Rightarrow>
                  if graalvm_home = [] then ([Print guidance], SystemExit None)
                  else build a w graalvm_home))"

section \<open>Vocabulary of the properties\<close>

text \<open>
  What the properties below speak about: the value an alias stands for, the last
  \<open>--timeout\<close> of a command line, which options choose an install location, the
  locations in force after parsing, the invariant the parser keeps between the namespace
  and the options of the exclusive group it has counted, the kernel name of a run, a field
  of a dictionary, and Python's \<open>startswith\<close>, \<open>endswith\<close> and \<open>in\<close> on
  strings.
\<close>

definition resolve_alias :: "string \<Rightarrow> string" where
  "resolve_alias v = (if v = ''NO_TIMEOUT'' then ''-1'' else v)"

fun last_timeout :: "opt list \<Rightarrow> string option" where
  "last_timeout [] = None"
| "last_timeout (Opt_timeout v # xs) = (case last_timeout xs of None \<Rightarrow> Some v | Some v' \<Rightarrow> Some v')"
| "last_timeout (x # xs) = last_timeout xs"

fun is_location :: "opt \<Rightarrow> bool" where
  "is_location Opt_user = True"
| "is_location Opt_sys_prefix = True"
| "is_location (Opt_prefix p) = True"
| "is_location x = False"

fun is_graalvm :: "opt \<Rightarrow> bool" where
  "is_graalvm (Opt_graalvm g) = True"
| "is_graalvm x = False"

definition active_locations :: "args \<Rightarrow> location list" where
  "active_locations a =
     (if user a then [Loc_user] else []) @ (if sys_prefix a then [Loc_sys_prefix] else [])
     @ (if prefix a \<noteq> [] then [Loc_prefix] else [])"

definition loc_inv :: "args \<times> location list \<Rightarrow> bool" where
  "loc_inv st =
     ((user (fst st) \<longrightarrow> Loc_user \<in> set (snd st)) \<and>
      (sys_prefix (fst st) \<longrightarrow> Loc_sys_prefix \<in> set (snd st)) \<and>
      (prefix (fst st) \<noteq> [] \<longrightarrow> Loc_prefix \<in> set (snd st)) \<and>
      (\<forall>l \<in> set (snd st). \<forall>l' \<in> set (snd st). l = l'))"

definition kernel_name :: "args \<Rightarrow> string" where
  "kernel_name a = (if truthy (native a) then ''GraalVMNative'' else ''GraalVM'')"

fun json_field :: "json \<Rightarrow> string \<Rightarrow> json option" where
  "json_field (JDict kvs) k = map_of kvs k"
| "json_field j k = None"

definition startswith :: "string \<Rightarrow> string \<Rightarrow> bool" where
  "startswith s pre = (take (length pre) s = pre)"

definition endswith :: "string \<Rightarrow> string \<Rightarrow> bool" where
  "endswith s suf = (length suf \<le> length s \<and> drop (length s - length suf) s = suf)"

fun contains :: "string \<Rightarrow> string \<Rightarrow> bool" where
  "contains [] sub = (sub = [])"
| "contains (c # cs) sub = (startswith (c # cs) sub \<or> contains cs sub)"

subsection \<open>Two concrete worlds\<close>

text \<open>
  In \<open>example_world\<close> nothing raises and every command returns 0; in
  \<open>failing_world\<close> the build succeeds and every other command returns 3.
  \<open>jar_args\<close> and \<open>native_args\<close> are the arguments of the two example runs after
  the defaults.
\<close>

definition example_world :: world where
  "example_world =
     \<lparr>environ = [], script_dir = ''/src'', sys_prefix_dir = ''/usr'',
      path_exists = (\<lambda>p. False), returncode = (\<lambda>cmd. 0),
      kernel_spec_dest = (\<lambda>dir name u p. ''/kernels/'' @ name), raises = (\<lambda>e. False)\<rparr>"

definition failing_world :: world where
  "failing_world =
     example_world\<lparr>returncode := (\<lambda>cmd. if cmd = [''mvn'', ''package''] then 0 else 3)\<rparr>"

definition jar_args :: args where
  "jar_args = \<lparr>user = True, sys_prefix = False, prefix = [],
               env = Some [(''IJAVA_TIMEOUT'', ''-1'')], graalvm = Some ''/opt/gvm'', native = None\<rparr>"

definition native_args :: args where
  "native_args = \<lparr>user = True, sys_prefix = False, prefix = [],
               env = Some [], graalvm = Some ''/opt/gvm'', native = Some ''python''\<rparr>"

section \<open>Lemmas\<close>

lemma timeout_type_eq: "timeout_type = Inr (checker [(''NO_TIMEOUT'', ''-1'')] str_type)"
  by (simp add: timeout_type_def type_assertion_def NAME_MAP_def ALIASES_def)

lemma checker_str: "checker [(''NO_TIMEOUT'', ''-1'')] str_type v = Inr (resolve_alias v)"
  by (simp add: checker_def str_type_def resolve_alias_def)

lemma timeout_action_eq:
  "timeout_action = Inr \<lparr>option_strings = [''--timeout''], dest = ''env'', aliases = ALIASES,
      name_map = NAME_MAP, list_sep = None\<rparr>"
  by (simp add: timeout_action_def EnvVar_init_def NAME_MAP_def lstrip_dash_def)

lemma take_action_timeout:
  "take_action same (ns, seen) (Opt_timeout v) =
     Inr (ns\<lparr>env := Some (AList.update ''IJAVA_TIMEOUT'' (resolve_alias v)
                          (case env ns of None \<Rightarrow> [] | Some e \<Rightarrow> e))\<rparr>, seen)"
  by (simp add: timeout_type_eq timeout_action_eq checker_str EnvVar_call_def NAME_MAP_def
      lstrip_dash_def)

lemma consume_env:
  "consume same (ns, seen) argv = Inr a \<Longrightarrow>
   env a = (case last_timeout argv of
              None \<Rightarrow> env ns
            | Some v \<Rightarrow> Some (AList.update ''IJAVA_TIMEOUT'' (resolve_alias v)
                               (case env ns of None \<Rightarrow> [] | Some e \<Rightarrow> e)))"
proof (induction argv arbitrary: ns seen)
  case Nil
  then show ?case by simp
next
  case (Cons x xs)
  show ?case
  proof (cases x)
    case (Opt_timeout v)
    with Cons.prems have "consume same (ns\<lparr>env := Some (AList.update ''IJAVA_TIMEOUT'' (resolve_alias v)
                          (case env ns of None \<Rightarrow> [] | Some e \<Rightarrow> e))\<rparr>, seen) xs = Inr a"
      by (simp add: take_action_timeout del: take_action.simps)
    from Cons.IH [OF this] Opt_timeout show ?thesis
      by (simp split: option.splits)
  next
    case Opt_user
    with Cons.prems obtain seen' where "consume same (ns\<lparr>user := True\<rparr>, seen') xs = Inr a"
      by (auto split: sum.splits)
    from Cons.IH [OF this] Opt_user show ?thesis by (simp split: option.splits)
  next
    case Opt_sys_prefix
    with Cons.prems obtain seen' where "consume same (ns\<lparr>sys_prefix := True\<rparr>, seen') xs = Inr a"
      by (auto split: sum.splits)
    from Cons.IH [OF this] Opt_sys_prefix show ?thesis by (simp split: option.splits)
  next
    case (Opt_prefix p)
    with Cons.prems obtain seen' where "consume same (ns\<lparr>prefix := p\<rparr>, seen') xs = Inr a"
      by (auto split: sum.splits)
    from Cons.IH [OF this] Opt_prefix show ?thesis by (simp split: option.splits)
  next
    case (Opt_graalvm g)
    with Cons.prems have "consume same (ns\<lparr>graalvm := Some g\<rparr>, seen) xs = Inr a"
      by simp
    from Cons.IH [OF this] Opt_graalvm show ?thesis by (simp split: option.splits)
  next
    case (Opt_native n)
    with Cons.prems have "consume same (ns\<lparr>native := Some n\<rparr>, seen) xs = Inr a"
      by simp
    from Cons.IH [OF this] Opt_native show ?thesis by (simp split: option.splits)
  qed
qed

lemmas timeout_simps = timeout_type_eq timeout_action_eq checker_str EnvVar_call_def NAME_MAP_def
  lstrip_dash_def

lemma exclusive_Inr:
  "exclusive l c seen = Inr seen' \<Longrightarrow>
     (c \<and> seen' = List.insert l seen \<and> (\<forall>l' \<in> set seen. l' = l)) \<or> (\<not> c \<and> seen' = seen)"
  by (auto simp: exclusive_def list_ex_iff split: if_splits)

lemma take_action_inv:
  assumes "loc_inv st" and "take_action same st x = Inr st'"
  shows "loc_inv st'"
proof -
  obtain ns seen where st: "st = (ns, seen)" by (cases st)
  show ?thesis
  proof (cases x)
    case Opt_user
    with assms st show ?thesis
      by (auto simp: loc_inv_def split: sum.splits dest!: exclusive_Inr)
  next
    case Opt_sys_prefix
    with assms st show ?thesis
      by (auto simp: loc_inv_def split: sum.splits dest!: exclusive_Inr)
  next
    case (Opt_prefix p)
    with assms st show ?thesis
      by (auto simp: loc_inv_def split: sum.splits dest!: exclusive_Inr)
  next
    case (Opt_timeout v)
    with assms st show ?thesis
      by (auto simp: loc_inv_def timeout_simps)
  next
    case (Opt_graalvm g)
    with assms st show ?thesis by (auto simp: loc_inv_def)
  next
    case (Opt_native n)
    with assms st show ?thesis by (auto simp: loc_inv_def)
  qed
qed

lemma consume_inv:
  "loc_inv st \<Longrightarrow> consume same st argv = Inr a \<Longrightarrow> \<exists>seen. loc_inv (a, seen)"
proof (induction argv arbitrary: st)
  case Nil
  then show ?case by (cases st) auto
next
  case (Cons x xs)
  from Cons.prems(2) obtain st' where t: "take_action same st x = Inr st'"
    and c: "consume same st' xs = Inr a"
    by (auto split: sum.splits)
  from take_action_inv [OF Cons.prems(1) t] c show ?case by (rule Cons.IH)
qed

lemma parse_args_exclusive:
  assumes "parse_args same argv = Inr a"
  shows "\<not> (user a \<and> sys_prefix a) \<and> \<not> (user a \<and> prefix a \<noteq> []) \<and> \<not> (sys_prefix a \<and> prefix a \<noteq> [])"
proof -
  have "loc_inv (defaults, [])" by (simp add: loc_inv_def defaults_def)
  from consume_inv [OF this] assms obtain seen where "loc_inv (a, seen)"
    unfolding parse_args_def by blast
  then show ?thesis by (auto simp: loc_inv_def)
qed

lemma take_action_plain:
  "\<not> is_location x \<Longrightarrow>
   \<exists>ns'. take_action same (ns, seen) x = Inr (ns', seen) \<and> user ns' = user ns \<and>
     sys_prefix ns' = sys_prefix ns \<and> prefix ns' = prefix ns \<and>
     (\<forall>seen'. take_action same (ns, seen') x = Inr (ns', seen'))"
  by (cases x) (auto simp: timeout_simps)

lemma consume_plain:
  "\<not> list_ex is_location argv \<Longrightarrow>
   \<exists>a. consume same (ns, seen) argv = Inr a \<and> user a = user ns \<and>
     sys_prefix a = sys_prefix ns \<and> prefix a = prefix ns \<and>
     (\<forall>seen'. consume same (ns, seen') argv = Inr a)"
proof (induction argv arbitrary: ns)
  case Nil
  then show ?case by simp
next
  case (Cons x xs)
  then have x: "\<not> is_location x" and xs: "\<not> list_ex is_location xs" by simp_all
  from take_action_plain [OF x, of same ns seen] obtain ns' where
    t: "take_action same (ns, seen) x = Inr (ns', seen)" and
    k: "user ns' = user ns" "sys_prefix ns' = sys_prefix ns" "prefix ns' = prefix ns" and
    i: "\<And>seen'. take_action same (ns, seen') x = Inr (ns', seen')"
    by blast
  from Cons.IH [OF xs, of ns'] obtain a where
    "consume same (ns', seen) xs = Inr a" "user a = user ns'" "sys_prefix a = sys_prefix ns'"
    "prefix a = prefix ns'" "\<And>seen'. consume same (ns', seen') xs = Inr a"
    by blast
  with t k i show ?case by (simp del: take_action.simps)
qed

lemma consume_seen:
  "\<not> list_ex is_location argv \<Longrightarrow> consume same (ns, seen') argv = consume same (ns, seen) argv"
  using consume_plain [of argv same ns seen] by auto

lemma consume_graalvm:
  "\<not> list_ex is_graalvm argv \<Longrightarrow> consume same (ns, seen) argv = Inr a \<Longrightarrow> graalvm a = graalvm ns"
proof (induction argv arbitrary: ns seen)
  case Nil
  then show ?case by simp
next
  case (Cons x xs)
  then have x: "\<not> is_graalvm x" and xs: "\<not> list_ex is_graalvm xs" by simp_all
  from Cons.prems(2) obtain ns' seen' where t: "take_action same (ns, seen) x = Inr (ns', seen')"
    and c: "consume same (ns', seen') xs = Inr a"
    by (auto split: sum.splits simp del: take_action.simps)
  from t x have "graalvm ns' = graalvm ns"
    by (cases x) (auto simp: timeout_simps split: sum.splits)
  with Cons.IH [OF xs c] show ?case by simp
qed

lemma consume_empty_prefix:
  "\<not> list_ex is_location pre \<Longrightarrow> \<not> list_ex is_location post \<Longrightarrow> prefix ns = [] \<Longrightarrow>
   consume same (ns, []) (pre @ Opt_prefix [] # post) = consume same (ns, []) (pre @ post)"
proof (induction pre arbitrary: ns)
  case Nil
  have "ns\<lparr>prefix := []\<rparr> = ns" using Nil.prems(3) by simp
  then show ?case
    using consume_seen [OF Nil.prems(2), of same ns "[Loc_prefix]" "[]"]
    by (cases same) (simp_all add: exclusive_def)
next
  case (Cons x xs)
  then have x: "\<not> is_location x" and xs: "\<not> list_ex is_location xs" by simp_all
  from take_action_plain [OF x, of same ns "[]"] obtain ns' where
    t: "take_action same (ns, []) x = Inr (ns', [])" and k: "prefix ns' = prefix ns"
    by blast
  with Cons.IH [OF xs Cons.prems(2), of ns'] Cons.prems(3) show ?case
    by (simp del: take_action.simps)
qed

lemma fst_perform: "fst (perform w e r) = (if raises w e then [] else e # fst r)"
  by (simp add: perform_def)

lemma snd_perform: "snd (perform w e r) = (if raises w e then Raised (OSError e) else snd r)"
  by (simp add: perform_def)

lemma fst_emit: "fst (emit e r) = e # fst r"
  by (simp add: emit_def)

lemma snd_emit: "snd (emit e r) = snd r"
  by (simp add: emit_def)

lemmas run_simps = fst_perform snd_perform fst_emit snd_emit

lemma install_kernel_writes:
  assumes "Write_file p txt \<in> set (fst (install_kernel a w h kn))"
  shows "\<exists>ov. env a = Some ov \<and> p = path_join (install_dest_of a w kn) ''kernel.json'' \<and>
           txt = dumps 4 True 0 (kernel_json a h (install_dest_of a w kn) ov)"
  using assms
  by (auto simp: install_kernel_def Let_def run_simps split: if_splits option.splits)

lemma native_image_writes:
  assumes "Write_file p txt \<in> set (fst (native_image a w h))"
  shows "Write_file p txt \<in> set (fst (install_kernel a w h (kernel_name a)))"
  using assms
  by (auto simp: native_image_def Let_def run_simps kernel_name_def truthy_def
      split: if_splits option.splits)

lemma build_writes:
  assumes "Write_file p txt \<in> set (fst (build a w h))"
  shows "Write_file p txt \<in> set (fst (native_image a w h))"
  using assms
  by (auto simp: build_def Let_def run_simps split: if_splits)

lemma main_reaches_build:
  assumes "x \<in> set (fst (main same argv w))" and "\<And>s. x \<noteq> Print s" and "\<And>m. x \<noteq> Usage_error m"
  shows "\<exists>a h. parse_args same argv = Inr a \<and> graalvm_home_of (apply_defaults a) w = Some h \<and>
           h \<noteq> [] \<and> main same argv w = build (apply_defaults a) w h"
  using assms
  by (auto simp: main_def Let_def split: sum.splits exn.splits option.splits if_splits)

lemma main_writes:
  assumes "Write_file p txt \<in> set (fst (main same argv w))"
  shows "\<exists>a h ov. parse_args same argv = Inr a \<and> graalvm_home_of (apply_defaults a) w = Some h \<and>
           h \<noteq> [] \<and> env (apply_defaults a) = Some ov \<and>
           p = path_join (install_dest_of (apply_defaults a) w (kernel_name (apply_defaults a))) ''kernel.json'' \<and>
           txt = dumps 4 True 0 (kernel_json (apply_defaults a) h
                   (install_dest_of (apply_defaults a) w (kernel_name (apply_defaults a))) ov)"
proof -
  from main_reaches_build [OF assms] obtain a h where
    p: "parse_args same argv = Inr a" "graalvm_home_of (apply_defaults a) w = Some h" "h \<noteq> []"
    and m: "main same argv w = build (apply_defaults a) w h"
    by fastforce
  from assms m have "Write_file p txt \<in> set (fst (build (apply_defaults a) w h))" by simp
  from install_kernel_writes [OF native_image_writes [OF build_writes [OF this]]] p
  show ?thesis by blast
qed

lemma install_kernel_no_run: "Run cmd \<notin> set (fst (install_kernel a w h kn))"
  by (auto simp: install_kernel_def Let_def run_simps split: if_splits option.splits)

lemma native_image_run_fails:
  assumes "Run cmd \<in> set (fst (native_image a w h))" and "returncode w cmd \<noteq> 0"
  shows "snd (native_image a w h) = SystemExit (Some (returncode w cmd)) \<and>
         fst (native_image a w h) \<noteq> [] \<and> last (fst (native_image a w h)) = Run cmd"
  using assms install_kernel_no_run [of cmd a w h]
  by (auto simp: native_image_def Let_def run_simps split: if_splits option.splits)

lemma native_run_args_not_mvn: "native_run_args h ls \<noteq> [''mvn'', ''package'']"
  by (simp add: native_run_args_def)

lemma build_run_fails:
  assumes "Run cmd \<in> set (fst (build a w h))" and "returncode w cmd \<noteq> 0"
  shows "snd (build a w h) = SystemExit (Some (returncode w cmd)) \<and>
         fst (build a w h) \<noteq> [] \<and> last (fst (build a w h)) = Run cmd"
proof (cases "cmd = [''mvn'', ''package'']")
  case True
  with assms show ?thesis
    by (auto simp: build_def Let_def run_simps split: if_splits)
next
  case False
  with assms have n: "Run cmd \<in> set (fst (native_image a w h))"
    by (auto simp: build_def Let_def run_simps split: if_splits)
  from native_image_run_fails [OF n assms(2)] assms False show ?thesis
    by (auto simp: build_def Let_def run_simps split: if_splits)
qed

lemma main_run_fails:
  assumes "Run cmd \<in> set (fst (main same argv w))" and "returncode w cmd \<noteq> 0"
  shows "snd (main same argv w) = SystemExit (Some (returncode w cmd)) \<and>
         fst (main same argv w) \<noteq> [] \<and> last (fst (main same argv w)) = Run cmd"
proof -
  from main_reaches_build [OF assms(1)] obtain a h where
    m: "main same argv w = build (apply_defaults a) w h"
    by fastforce
  with build_run_fails [of cmd "apply_defaults a" w h] assms show ?thesis by simp
qed

lemma endswith_append: "endswith (xs @ suf) suf"
  by (simp add: endswith_def)

lemma contains_prefix: "contains (sub @ ys) sub"
proof (cases "sub @ ys")
  case Nil
  then show ?thesis by simp
next
  case (Cons c cs)
  have "startswith (sub @ ys) sub" by (simp add: startswith_def)
  with Cons show ?thesis by simp
qed

lemma contains_append: "contains (xs @ sub @ ys) sub"
  by (induction xs) (auto simp: contains_prefix)

lemma kernel_json_sorted:
  "items_in_order True
     [(''argv'', a), (''display_name'', b), (''language'', c), (''interrupt_mode'', d), (''env'', e)]
   = [(''argv'', a), (''display_name'', b), (''env'', e), (''interrupt_mode'', d), (''language'', c)]"
  by (simp add: items_in_order_def)

lemmas parse_simps = parse_args_def defaults_def exclusive_def timeout_simps apply_defaults_def

lemma example_parse:
  "parse_args same [Opt_timeout ''NO_TIMEOUT'', Opt_graalvm ''/opt/gvm''] = Inr (jar_args\<lparr>user := False\<rparr>)"
  by (simp add: parse_simps jar_args_def resolve_alias_def)

lemma example_parse_native:
  "parse_args same [Opt_native ''python'', Opt_graalvm ''/opt/gvm''] = Inr (native_args\<lparr>user := False, env := None\<rparr>)"
  by (simp add: parse_simps native_args_def)

lemma example_defaults: "apply_defaults (jar_args\<lparr>user := False\<rparr>) = jar_args"
  by (simp add: apply_defaults_def jar_args_def)

lemma example_defaults_native: "apply_defaults (native_args\<lparr>user := False, env := None\<rparr>) = native_args"
  by (simp add: apply_defaults_def native_args_def)

lemma example_run:
  "main same [Opt_timeout ''NO_TIMEOUT'', Opt_graalvm ''/opt/gvm''] example_world =
     ([Set_environ ''JAVA_HOME'' ''/opt/gvm'', Run [''mvn'', ''package''], Mkdir ''/src/graalvm'',
       Move ''/src/target/IGraalVM-1.0-SNAPSHOT.jar'' ''/src/graalvm/IGraalVM.jar'',
       Install_kernel_spec ''/src/graalvm'' ''GraalVM'' True [],
       Write_file ''/kernels/GraalVM/kernel.json''
         (dumps 4 True 0 (kernel_json jar_args ''/opt/gvm'' ''/kernels/GraalVM'' [(''IJAVA_TIMEOUT'', ''-1'')])),
       Print (''Installed GraalVM kernel into '' @ [CHR 0x22] @ ''/kernels/GraalVM'' @ [CHR 0x22])],
      Finished)"
  unfolding main_def example_parse
  by (simp add: example_defaults, simp add: jar_args_def graalvm_home_of_def truthy_def example_world_def build_def
      native_image_def install_kernel_def perform_def emit_def path_join_def install_dest_of_def
      install_prefix_def Let_def)

lemma example_run_native:
  "main same [Opt_native ''python'', Opt_graalvm ''/opt/gvm''] example_world =
     ([Set_environ ''JAVA_HOME'' ''/opt/gvm'', Run [''mvn'', ''package''], Mkdir ''/src/graalvm'',
       Move ''/src/target/IGraalVM-1.0-SNAPSHOT.jar'' ''/src/graalvm/IGraalVM.jar'',
       Print_languages [''python''], Chdir ''graalvm'',
       Run [''/opt/gvm/bin/native-image'', ''-H:+ReportExceptionStackTraces'', ''--no-fallback'',
            ''--report-unsupported-elements-at-runtime'', ''--language:python'', ''-jar'', ''IGraalVM.jar''],
       Remove ''IGraalVM.jar'', Chdir ''..'',
       Install_kernel_spec ''/src/graalvm'' ''GraalVMNative'' True [],
       Write_file ''/kernels/GraalVMNative/kernel.json''
         (dumps 4 True 0 (kernel_json native_args ''/opt/gvm'' ''/kernels/GraalVMNative'' [])),
       Print (''Installed GraalVM kernel into '' @ [CHR 0x22] @ ''/kernels/GraalVMNative'' @ [CHR 0x22])],
      Finished)"
  unfolding main_def example_parse_native
  by (simp add: example_defaults_native, simp add: native_args_def graalvm_home_of_def truthy_def example_world_def build_def
      native_image_def install_kernel_def perform_def emit_def path_join_def install_dest_of_def
      install_prefix_def native_run_args_def Let_def)

lemma parse_args_env:
  assumes "parse_args same argv = Inr a"
  shows "env (apply_defaults a) =
           Some (case last_timeout argv of None \<Rightarrow> [] | Some v \<Rightarrow> [(''IJAVA_TIMEOUT'', resolve_alias v)])"
  using consume_env [of same defaults "[]" argv a] assms
  by (simp add: parse_args_def defaults_def apply_defaults_def split: option.splits)

lemma apply_defaults_native [simp]: "native (apply_defaults a) = native a"
  by (simp add: apply_defaults_def)

lemma apply_defaults_graalvm [simp]: "graalvm (apply_defaults a) = graalvm a"
  by (simp add: apply_defaults_def)

lemma kernel_env_empty: "kernel_env h [] = [(''GRAALVM_HOME'', h)]"
  by (simp add: kernel_env_def merge_env_def)

lemma kernel_env_timeout:
  "kernel_env h [(''IJAVA_TIMEOUT'', v)] = [(''GRAALVM_HOME'', h), (''IJAVA_TIMEOUT'', v)]"
  by (simp add: kernel_env_def merge_env_def)

lemma map_of_merge_env:
  "distinct (map fst ov) \<Longrightarrow>
   map_of (merge_env base ov) k = (case map_of ov k of Some v \<Rightarrow> Some v | None \<Rightarrow> map_of base k)"
  unfolding merge_env_def
proof (induction ov arbitrary: base)
  case Nil
  then show ?case by simp
next
  case (Cons kv ov)
  then have d: "distinct (map fst ov)" and n: "map_of ov (fst kv) = None"
    by (simp_all add: map_of_eq_None_iff)
  from Cons.IH [OF d, of "AList.update (fst kv) (snd kv) base"] n show ?case
    by (cases kv) (auto simp: update_conv' split: option.splits)
qed

lemma merge_env_override:
  assumes "distinct (map fst ov)" and "map_of ov k = Some v"
  shows "map_of (merge_env base ov) k = Some v"
  using assms by (simp add: map_of_merge_env)

lemma dumps_descriptor:
  "dumps 4 True 0 (JDict [(''argv'', A), (''display_name'', B), (''language'', C),
                          (''interrupt_mode'', JStr d), (''env'', E)]) =
   (''{'' @ newline_indent 4 1 @ encode_str ''argv'' @ '': '' @ dumps 4 True 1 A @ '',''
    @ newline_indent 4 1 @ encode_str ''display_name'' @ '': '' @ dumps 4 True 1 B @ '',''
    @ newline_indent 4 1 @ encode_str ''env'' @ '': '' @ dumps 4 True 1 E @ '',''
    @ newline_indent 4 1) @ (encode_str ''interrupt_mode'' @ '': '' @ encode_str d) @ ('',''
    @ newline_indent 4 1 @ encode_str ''language'' @ '': '' @ dumps 4 True 1 C
    @ newline_indent 4 0 @ ''}'')"
  by (simp add: kernel_json_sorted)

lemma failing_run:
  "main same [Opt_native ''python'', Opt_graalvm ''/opt/gvm''] failing_world =
     ([Set_environ ''JAVA_HOME'' ''/opt/gvm'', Run [''mvn'', ''package''], Mkdir ''/src/graalvm'',
       Move ''/src/target/IGraalVM-1.0-SNAPSHOT.jar'' ''/src/graalvm/IGraalVM.jar'',
       Print_languages [''python''], Chdir ''graalvm'',
       Run [''/opt/gvm/bin/native-image'', ''-H:+ReportExceptionStackTraces'', ''--no-fallback'',
            ''--report-unsupported-elements-at-runtime'', ''--language:python'', ''-jar'',
            ''IGraalVM.jar'']],
      SystemExit (Some 3))"
  unfolding main_def example_parse_native
  by (simp add: example_defaults_native,
      simp add: native_args_def graalvm_home_of_def truthy_def example_world_def
        failing_world_def build_def native_image_def perform_def emit_def path_join_def
        native_run_args_def Let_def)

lemma consume_total_plain:
  assumes "\<not> list_ex is_location argv"
  shows "\<exists>a. parse_args same argv = Inr a \<and> \<not> user a \<and> \<not> sys_prefix a \<and> prefix a = []"
  using consume_plain [OF assms, of same defaults "[]"]
  by (auto simp: parse_args_def defaults_def)

lemma dumps_strings: "dumps i True l (JList (map JStr xs)) = dumps i False l (JList (map JStr xs))"
  by (simp add: comp_def)

lemma dumps_kernel_env:
  assumes "ov = [] \<or> ov = [(''IJAVA_TIMEOUT'', v)]"
  shows "dumps i True l (JDict (map (\<lambda>kv. (fst kv, JStr (snd kv))) (kernel_env h ov)))
       = dumps i False l (JDict (map (\<lambda>kv. (fst kv, JStr (snd kv))) (kernel_env h ov)))"
    and "sorted (map fst (kernel_env h ov))"
  using assms by (auto simp: kernel_env_empty kernel_env_timeout items_in_order_def)

lemma dumps_kernel_json:
  assumes "ov = [] \<or> ov = [(''IJAVA_TIMEOUT'', v)]"
  shows "dumps 4 True 0 (kernel_json a h d ov) =
         dumps 4 False 0
           (JDict [(''argv'', JList (map JStr (kernel_args a h d))),
                   (''display_name'', JStr (if truthy (native a) then ''GraalVM Native'' else ''GraalVM'')),
                   (''env'', JDict (map (\<lambda>kv. (fst kv, JStr (snd kv))) (kernel_env h ov))),
                   (''interrupt_mode'', JStr ''message''),
                   (''language'', JStr ''GraalVM'')])"
proof -
  have "dumps 4 True 0 (kernel_json a h d ov) =
        ''{'' @ newline_indent 4 1
        @ join_items ('','' @ newline_indent 4 1)
           [encode_str ''argv'' @ '': '' @ dumps 4 True 1 (JList (map JStr (kernel_args a h d))),
            encode_str ''display_name'' @ '': '' @ dumps 4 True 1 (JStr (if truthy (native a) then ''GraalVM Native'' else ''GraalVM'')),
            encode_str ''env'' @ '': '' @ dumps 4 True 1 (JDict (map (\<lambda>kv. (fst kv, JStr (snd kv))) (kernel_env h ov))),
            encode_str ''interrupt_mode'' @ '': '' @ dumps 4 True 1 (JStr ''message''),
            encode_str ''language'' @ '': '' @ dumps 4 True 1 (JStr ''GraalVM'')]
        @ newline_indent 4 0 @ ''}''"
    unfolding kernel_json_def dumps.simps(3) kernel_json_sorted by simp
  also have "\<dots> = dumps 4 False 0
           (JDict [(''argv'', JList (map JStr (kernel_args a h d))),
                   (''display_name'', JStr (if truthy (native a) then ''GraalVM Native'' else ''GraalVM'')),
                   (''env'', JDict (map (\<lambda>kv. (fst kv, JStr (snd kv))) (kernel_env h ov))),
                   (''interrupt_mode'', JStr ''message''),
                   (''language'', JStr ''GraalVM'')])"
    unfolding dumps.simps(3) [of 4 False 0] dumps_strings dumps_kernel_env(1) [OF assms]
    by (simp add: items_in_order_def)
  finally show ?thesis .
qed

section \<open>The claims\<close>

text \<open>
  C1, as stated in the specification, fails: for \<open>--timeout NO_TIMEOUT --graalvm /opt/gvm\<close>
  the \<open>env\<close> written has the key \<open>IJAVA_TIMEOUT\<close>, which is what \<open>NAME_MAP\<close> gives
  to \<open>timeout\<close>, and no key \<open>IGRAALVM_TIMEOUT\<close>.
\<close>

theorem example_descriptor_counterexample:
  "Write_file ''/kernels/GraalVM/kernel.json''
     (dumps 4 True 0 (kernel_json jar_args ''/opt/gvm'' ''/kernels/GraalVM'' [(''IJAVA_TIMEOUT'', ''-1'')]))
     \<in> set (fst (main True [Opt_timeout ''NO_TIMEOUT'', Opt_graalvm ''/opt/gvm''] example_world)) \<and>
   json_field (kernel_json jar_args ''/opt/gvm'' ''/kernels/GraalVM'' [(''IJAVA_TIMEOUT'', ''-1'')]) ''env''
     = Some (JDict [(''GRAALVM_HOME'', JStr ''/opt/gvm''), (''IJAVA_TIMEOUT'', JStr ''-1'')]) \<and>
   json_field (JDict [(''GRAALVM_HOME'', JStr ''/opt/gvm''), (''IJAVA_TIMEOUT'', JStr ''-1'')])
     ''IGRAALVM_TIMEOUT'' = None \<and>
   json_field (JDict [(''GRAALVM_HOME'', JStr ''/opt/gvm''), (''IGRAALVM_TIMEOUT'', JStr ''-1'')])
     ''IGRAALVM_TIMEOUT'' = Some (JStr ''-1'')"
  by (simp add: example_run kernel_json_def kernel_env_timeout)

text \<open>
  C1, amended. For \<open>--timeout NO_TIMEOUT --graalvm /opt/gvm\<close> without \<open>--native\<close>,
  the descriptor written has \<open>env\<close> equal to
  \<open>{"GRAALVM_HOME": "/opt/gvm", "IJAVA_TIMEOUT": "-1"}\<close> and \<open>argv\<close> equal to
  \<open>["/opt/gvm/bin/java", "-jar", d + "/IGraalVM.jar", "{connection_file}"]\<close>, where
  \<open>d\<close> is the install destination the kernel-spec manager returned.
\<close>

theorem example_descriptor:
  assumes "Write_file p txt \<in> set (fst (main same [Opt_timeout ''NO_TIMEOUT'', Opt_graalvm ''/opt/gvm''] w))"
    and "d = kernel_spec_dest w (path_join (script_dir w) ''graalvm'') ''GraalVM'' True []"
  shows "txt = dumps 4 True 0
           (JDict [(''argv'', JList [JStr ''/opt/gvm/bin/java'', JStr ''-jar'',
                                     JStr (d @ ''/IGraalVM.jar''), JStr ''{connection_file}'']),
                   (''display_name'', JStr ''GraalVM''),
                   (''language'', JStr ''GraalVM''),
                   (''interrupt_mode'', JStr ''message''),
                   (''env'', JDict [(''GRAALVM_HOME'', JStr ''/opt/gvm''),
                                    (''IJAVA_TIMEOUT'', JStr ''-1'')])])"
proof -
  from main_writes [OF assms(1)] obtain h ov where
    h: "graalvm_home_of jar_args w = Some h" and e: "env jar_args = Some ov" and
    t: "txt = dumps 4 True 0 (kernel_json jar_args h (install_dest_of jar_args w (kernel_name jar_args)) ov)"
    by (auto simp: example_parse example_defaults)
  from h have "h = ''/opt/gvm''" by (simp add: graalvm_home_of_def jar_args_def truthy_def)
  moreover from e have "ov = [(''IJAVA_TIMEOUT'', ''-1'')]" by (simp add: jar_args_def)
  moreover have "install_dest_of jar_args w (kernel_name jar_args) = d"
    by (simp add: assms(2) install_dest_of_def kernel_name_def jar_args_def truthy_def install_prefix_def)
  moreover have "native jar_args = None" by (simp add: jar_args_def)
  ultimately show ?thesis using t
    by (simp add: kernel_json_def kernel_args_def kernel_env_timeout truthy_def)
qed

theorem example_descriptor_witness:
  "Write_file ''/kernels/GraalVM/kernel.json''
     (dumps 4 True 0 (kernel_json jar_args ''/opt/gvm'' ''/kernels/GraalVM'' [(''IJAVA_TIMEOUT'', ''-1'')]))
     \<in> set (fst (main True [Opt_timeout ''NO_TIMEOUT'', Opt_graalvm ''/opt/gvm''] example_world)) \<and>
   ''/kernels/GraalVM''
     = kernel_spec_dest example_world (path_join (script_dir example_world) ''graalvm'') ''GraalVM'' True [] \<and>
   dumps 4 True 0 (kernel_json jar_args ''/opt/gvm'' ''/kernels/GraalVM'' [(''IJAVA_TIMEOUT'', ''-1'')])
     = dumps 4 True 0
           (JDict [(''argv'', JList [JStr ''/opt/gvm/bin/java'', JStr ''-jar'',
                                     JStr ''/kernels/GraalVM/IGraalVM.jar'', JStr ''{connection_file}'']),
                   (''display_name'', JStr ''GraalVM''),
                   (''language'', JStr ''GraalVM''),
                   (''interrupt_mode'', JStr ''message''),
                   (''env'', JDict [(''GRAALVM_HOME'', JStr ''/opt/gvm''),
                                    (''IJAVA_TIMEOUT'', JStr ''-1'')])])"
proof -
  have r: "Write_file ''/kernels/GraalVM/kernel.json''
     (dumps 4 True 0 (kernel_json jar_args ''/opt/gvm'' ''/kernels/GraalVM'' [(''IJAVA_TIMEOUT'', ''-1'')]))
     \<in> set (fst (main True [Opt_timeout ''NO_TIMEOUT'', Opt_graalvm ''/opt/gvm''] example_world))"
    by (simp add: example_run)
  have d: "''/kernels/GraalVM''
     = kernel_spec_dest example_world (path_join (script_dir example_world) ''graalvm'') ''GraalVM'' True []"
    by (simp add: example_world_def)
  have t: "dumps 4 True 0 (kernel_json jar_args ''/opt/gvm'' ''/kernels/GraalVM'' [(''IJAVA_TIMEOUT'', ''-1'')])
     = dumps 4 True 0
           (JDict [(''argv'', JList [JStr ''/opt/gvm/bin/java'', JStr ''-jar'',
                                     JStr ''/kernels/GraalVM/IGraalVM.jar'', JStr ''{connection_file}'']),
                   (''display_name'', JStr ''GraalVM''),
                   (''language'', JStr ''GraalVM''),
                   (''interrupt_mode'', JStr ''message''),
                   (''env'', JDict [(''GRAALVM_HOME'', JStr ''/opt/gvm''),
                                    (''IJAVA_TIMEOUT'', JStr ''-1'')])])"
    using example_descriptor [OF r d] by simp
  show ?thesis by (rule conjI [OF r conjI [OF d t]])
qed

text \<open>
  C2, as stated in the specification, fails: in a run with \<open>--native python\<close> the
  \<open>language\<close> field written is \<open>GraalVM\<close>, which does not contain \<open>Native\<close>.
\<close>

theorem native_language_counterexample:
  "Write_file ''/kernels/GraalVMNative/kernel.json''
     (dumps 4 True 0 (kernel_json native_args ''/opt/gvm'' ''/kernels/GraalVMNative'' []))
     \<in> set (fst (main True [Opt_native ''python'', Opt_graalvm ''/opt/gvm''] example_world)) \<and>
   json_field (kernel_json native_args ''/opt/gvm'' ''/kernels/GraalVMNative'' []) ''language''
     = Some (JStr ''GraalVM'') \<and>
   \<not> contains ''GraalVM'' ''Native''"
  by (simp add: example_run_native kernel_json_def startswith_def)

text \<open>
  C2, amended. In every descriptor written the \<open>language\<close> field is \<open>GraalVM\<close>. When
  \<open>args.native\<close> is a non-empty string, \<open>argv\<close> is the installed \<open>IGraalVM\<close>
  executable followed by the connection-file placeholder, so \<open>argv[0]\<close> ends with
  \<open>IGraalVM\<close>, and \<open>display_name\<close> is \<open>GraalVM Native\<close>, which contains
  \<open>Native\<close>. Otherwise (no \<open>--native\<close>, or the empty string) \<open>argv\<close> begins with
  a path ending in \<open>/bin/java\<close>, followed by \<open>-jar\<close> and a path ending in
  \<open>IGraalVM.jar\<close>, and \<open>display_name\<close> is \<open>GraalVM\<close>.
\<close>

theorem descriptor_identity:
  assumes "Write_file p txt \<in> set (fst (main same argv w))"
  shows "\<exists>a h d ov. parse_args same argv = Inr a \<and>
           graalvm_home_of (apply_defaults a) w = Some h \<and>
           d = install_dest_of (apply_defaults a) w (kernel_name (apply_defaults a)) \<and>
           txt = dumps 4 True 0 (kernel_json (apply_defaults a) h d ov) \<and>
           json_field (kernel_json (apply_defaults a) h d ov) ''language'' = Some (JStr ''GraalVM'') \<and>
           (if truthy (native a) then
              json_field (kernel_json (apply_defaults a) h d ov) ''argv''
                = Some (JList [JStr (d @ ''/IGraalVM''), JStr ''{connection_file}'']) \<and>
              endswith (d @ ''/IGraalVM'') ''IGraalVM'' \<and>
              json_field (kernel_json (apply_defaults a) h d ov) ''display_name''
                = Some (JStr ''GraalVM Native'') \<and>
              contains ''GraalVM Native'' ''Native''
            else
              json_field (kernel_json (apply_defaults a) h d ov) ''argv''
                = Some (JList [JStr (h @ ''/bin/java''), JStr ''-jar'', JStr (d @ ''/IGraalVM.jar''),
                               JStr ''{connection_file}'']) \<and>
              endswith (h @ ''/bin/java'') ''/bin/java'' \<and>
              endswith (d @ ''/IGraalVM.jar'') ''IGraalVM.jar'' \<and>
              json_field (kernel_json (apply_defaults a) h d ov) ''display_name''
                = Some (JStr ''GraalVM''))"
proof -
  from main_writes [OF assms] obtain a h ov where
    p: "parse_args same argv = Inr a" and
    h: "graalvm_home_of (apply_defaults a) w = Some h" and
    t: "txt = dumps 4 True 0 (kernel_json (apply_defaults a) h
              (install_dest_of (apply_defaults a) w (kernel_name (apply_defaults a))) ov)"
    by blast
  let ?d = "install_dest_of (apply_defaults a) w (kernel_name (apply_defaults a))"
  have n: "contains ''GraalVM Native'' ''Native''"
    using contains_append [of "''GraalVM ''" "''Native''" "[]"] by simp
  have e1: "endswith (?d @ ''/IGraalVM'') ''IGraalVM''"
    using endswith_append [of "?d @ ''/''" "''IGraalVM''"] by simp
  have e2: "endswith (h @ ''/bin/java'') ''/bin/java''" by (rule endswith_append)
  have e3: "endswith (?d @ ''/IGraalVM.jar'') ''IGraalVM.jar''"
    using endswith_append [of "?d @ ''/''" "''IGraalVM.jar''"] by simp
  from p h t n e1 e2 e3 show ?thesis
    by (auto simp: kernel_json_def kernel_args_def)
qed

theorem descriptor_identity_witness:
  "Write_file ''/kernels/GraalVMNative/kernel.json''
     (dumps 4 True 0 (kernel_json native_args ''/opt/gvm'' ''/kernels/GraalVMNative'' []))
     \<in> set (fst (main True [Opt_native ''python'', Opt_graalvm ''/opt/gvm''] example_world)) \<and>
   truthy (native native_args) \<and>
   (\<exists>a h d ov. parse_args True [Opt_native ''python'', Opt_graalvm ''/opt/gvm''] = Inr a \<and>
      json_field (kernel_json (apply_defaults a) h d ov) ''display_name'' = Some (JStr ''GraalVM Native'') \<and>
      json_field (kernel_json (apply_defaults a) h d ov) ''language'' = Some (JStr ''GraalVM''))"
proof -
  have r: "Write_file ''/kernels/GraalVMNative/kernel.json''
     (dumps 4 True 0 (kernel_json native_args ''/opt/gvm'' ''/kernels/GraalVMNative'' []))
     \<in> set (fst (main True [Opt_native ''python'', Opt_graalvm ''/opt/gvm''] example_world))"
    by (simp add: example_run_native)
  have n: "truthy (native native_args)" by (simp add: native_args_def truthy_def)
  from descriptor_identity [OF r] obtain a h d ov where
    p: "parse_args True [Opt_native ''python'', Opt_graalvm ''/opt/gvm''] = Inr a" and
    l: "json_field (kernel_json (apply_defaults a) h d ov) ''language'' = Some (JStr ''GraalVM'')" and
    c: "if truthy (native a) then
          json_field (kernel_json (apply_defaults a) h d ov) ''argv''
            = Some (JList [JStr (d @ ''/IGraalVM''), JStr ''{connection_file}'']) \<and>
          endswith (d @ ''/IGraalVM'') ''IGraalVM'' \<and>
          json_field (kernel_json (apply_defaults a) h d ov) ''display_name''
            = Some (JStr ''GraalVM Native'') \<and>
          contains ''GraalVM Native'' ''Native''
        else
          json_field (kernel_json (apply_defaults a) h d ov) ''argv''
            = Some (JList [JStr (h @ ''/bin/java''), JStr ''-jar'', JStr (d @ ''/IGraalVM.jar''),
                           JStr ''{connection_file}'']) \<and>
          endswith (h @ ''/bin/java'') ''/bin/java'' \<and>
          endswith (d @ ''/IGraalVM.jar'') ''IGraalVM.jar'' \<and>
          json_field (kernel_json (apply_defaults a) h d ov) ''display_name''
            = Some (JStr ''GraalVM'')"
    by blast
  from p have "native a = Some ''python''"
    by (auto simp: example_parse_native native_args_def)
  then have "truthy (native a)" by (simp add: truthy_def)
  with c have "json_field (kernel_json (apply_defaults a) h d ov) ''display_name''
            = Some (JStr ''GraalVM Native'')"
    by simp
  with p l have "\<exists>a h d ov. parse_args True [Opt_native ''python'', Opt_graalvm ''/opt/gvm''] = Inr a \<and>
      json_field (kernel_json (apply_defaults a) h d ov) ''display_name'' = Some (JStr ''GraalVM Native'') \<and>
      json_field (kernel_json (apply_defaults a) h d ov) ''language'' = Some (JStr ''GraalVM'')"
    by blast
  with r n show ?thesis by blast
qed

text \<open>
  C3. For every string VALUE given to \<open>--timeout\<close>: when the command line is accepted
  and VALUE is the value of its last \<open>--timeout\<close>, the parsed \<open>env\<close> holds, under the
  key that \<open>NAME_MAP\<close> gives to \<open>timeout\<close> (\<open>IJAVA_TIMEOUT\<close>), the string \<open>-1\<close> if
  VALUE is \<open>NO_TIMEOUT\<close> and VALUE itself otherwise, and nothing else.
\<close>

theorem timeout_value_resolved:
  assumes "parse_args same argv = Inr a" and "last_timeout argv = Some v"
  shows "env a = Some [(''IJAVA_TIMEOUT'', if v = ''NO_TIMEOUT'' then ''-1'' else v)]"
  using consume_env [of same defaults "[]" argv a] assms
  by (simp add: parse_args_def defaults_def resolve_alias_def)

theorem timeout_value_resolved_witness:
  "parse_args True [Opt_timeout ''NO_TIMEOUT'', Opt_graalvm ''/opt/gvm''] = Inr (jar_args\<lparr>user := False\<rparr>) \<and>
   last_timeout [Opt_timeout ''NO_TIMEOUT'', Opt_graalvm ''/opt/gvm''] = Some ''NO_TIMEOUT'' \<and>
   env (jar_args\<lparr>user := False\<rparr>) = Some [(''IJAVA_TIMEOUT'', ''-1'')]"
proof -
  have p: "parse_args True [Opt_timeout ''NO_TIMEOUT'', Opt_graalvm ''/opt/gvm''] = Inr (jar_args\<lparr>user := False\<rparr>)"
    by (rule example_parse)
  have l: "last_timeout [Opt_timeout ''NO_TIMEOUT'', Opt_graalvm ''/opt/gvm''] = Some ''NO_TIMEOUT''"
    by simp
  from timeout_value_resolved [OF p l] p l show ?thesis by simp
qed

text \<open>
  C4. For every command line the parser accepts, after parsing and the defaulting of
  lines 119 to 121 exactly one of the three install locations is in force (\<open>args.user\<close>
  true, \<open>args.sys_prefix\<close> true, \<open>args.prefix\<close> non-empty); a command line with none
  of the three options is a user installation.
\<close>

theorem one_install_location:
  assumes "parse_args same argv = Inr a"
  shows "length (active_locations (apply_defaults a)) = 1 \<and>
         (\<not> list_ex is_location argv \<longrightarrow> active_locations (apply_defaults a) = [Loc_user])"
proof -
  from parse_args_exclusive [OF assms]
  have one: "length (active_locations (apply_defaults a)) = 1"
    by (auto simp: active_locations_def apply_defaults_def)
  have "active_locations (apply_defaults a) = [Loc_user]" if "\<not> list_ex is_location argv"
  proof -
    from consume_plain [OF that, of same defaults "[]"] assms
    have "user a = False" "sys_prefix a = False" "prefix a = []"
      by (auto simp: parse_args_def defaults_def)
    then show ?thesis by (simp add: active_locations_def apply_defaults_def)
  qed
  with one show ?thesis by blast
qed

theorem one_install_location_witness:
  "parse_args True [Opt_native ''python'', Opt_graalvm ''/opt/gvm''] = Inr (native_args\<lparr>user := False, env := None\<rparr>) \<and>
   \<not> list_ex is_location [Opt_native ''python'', Opt_graalvm ''/opt/gvm''] \<and>
   active_locations native_args = [Loc_user]"
proof -
  have p: "parse_args True [Opt_native ''python'', Opt_graalvm ''/opt/gvm''] = Inr (native_args\<lparr>user := False, env := None\<rparr>)"
    by (rule example_parse_native)
  from one_install_location [OF p] p show ?thesis
    by (simp add: example_defaults_native)
qed

text \<open>
  C5. When the accepted command line has no \<open>--graalvm\<close> and the environment has no
  \<open>GRAALVM_HOME\<close>, the run prints the guidance message and nothing else, and ends
  through \<open>exit()\<close>, which is exit status 0.
\<close>

theorem missing_home_exits_zero:
  assumes "parse_args same argv = Inr a" and "\<not> list_ex is_graalvm argv"
    and "map_of (environ w) ''GRAALVM_HOME'' = None"
  shows "main same argv w = ([Print guidance], SystemExit None) \<and>
         exit_status (snd (main same argv w)) = 0"
proof -
  from consume_graalvm [OF assms(2), of same defaults "[]" a] assms(1)
  have "graalvm a = None" by (simp add: parse_args_def defaults_def)
  with assms(1,3) show ?thesis
    by (simp add: main_def graalvm_home_of_def)
qed

theorem missing_home_exits_zero_witness:
  "parse_args True [Opt_sys_prefix] = Inr (defaults\<lparr>sys_prefix := True\<rparr>) \<and>
   \<not> list_ex is_graalvm [Opt_sys_prefix] \<and>
   map_of (environ example_world) ''GRAALVM_HOME'' = None \<and>
   main True [Opt_sys_prefix] example_world = ([Print guidance], SystemExit None) \<and>
   exit_status (snd (main True [Opt_sys_prefix] example_world)) = 0"
proof -
  have p: "parse_args True [Opt_sys_prefix] = Inr (defaults\<lparr>sys_prefix := True\<rparr>)"
    by (simp add: parse_args_def exclusive_def)
  have g: "\<not> list_ex is_graalvm [Opt_sys_prefix]" by simp
  have e: "map_of (environ example_world) ''GRAALVM_HOME'' = None"
    by (simp add: example_world_def)
  from missing_home_exits_zero [OF p g e] p g e show ?thesis by simp
qed

text \<open>
  C6. Whenever a spawned command (the build or the native-image compiler) has returned a
  non-zero code, the run ends with \<open>exit\<close> of that very code and the spawn is the last
  thing the script did: no retry and no later step.
\<close>

theorem failed_command_exits:
  assumes "Run cmd \<in> set (fst (main same argv w))" and "returncode w cmd \<noteq> 0"
  shows "snd (main same argv w) = SystemExit (Some (returncode w cmd)) \<and>
         fst (main same argv w) \<noteq> [] \<and> last (fst (main same argv w)) = Run cmd"
  using assms by (rule main_run_fails)

theorem failed_command_exits_witness:
  "Run (native_run_args ''/opt/gvm'' [''python''])
     \<in> set (fst (main True [Opt_native ''python'', Opt_graalvm ''/opt/gvm''] failing_world)) \<and>
   returncode failing_world (native_run_args ''/opt/gvm'' [''python'']) \<noteq> 0 \<and>
   snd (main True [Opt_native ''python'', Opt_graalvm ''/opt/gvm''] failing_world) = SystemExit (Some 3) \<and>
   last (fst (main True [Opt_native ''python'', Opt_graalvm ''/opt/gvm''] failing_world))
     = Run (native_run_args ''/opt/gvm'' [''python''])"
proof -
  have r: "Run (native_run_args ''/opt/gvm'' [''python''])
     \<in> set (fst (main True [Opt_native ''python'', Opt_graalvm ''/opt/gvm''] failing_world))"
    by (simp add: failing_run native_run_args_def path_join_def)
  have c: "returncode failing_world (native_run_args ''/opt/gvm'' [''python'']) \<noteq> 0"
    by (simp add: failing_world_def example_world_def native_run_args_def)
  have "returncode failing_world (native_run_args ''/opt/gvm'' [''python'']) = 3"
    by (simp add: failing_world_def example_world_def native_run_args_def)
  with failed_command_exits [OF r c] r c show ?thesis by simp
qed

text \<open>
  C7. Whenever the descriptor is written, its \<open>env\<close> dictionary maps \<open>GRAALVM_HOME\<close>
  to the resolved runtime home, holds every item of \<open>args.env\<close> (for \<open>--timeout\<close>: the
  alias-expanded value of its last occurrence under \<open>IJAVA_TIMEOUT\<close>), and the merge
  loop lets an item of \<open>args.env\<close> overwrite whatever the dictionary it is merged into
  holds under the same key.
\<close>

theorem descriptor_env_merged:
  assumes "Write_file p txt \<in> set (fst (main same argv w))"
  shows "\<exists>a h d ov. parse_args same argv = Inr a \<and>
           graalvm_home_of (apply_defaults a) w = Some h \<and> env (apply_defaults a) = Some ov \<and>
           txt = dumps 4 True 0 (kernel_json (apply_defaults a) h d ov) \<and>
           json_field (kernel_json (apply_defaults a) h d ov) ''env''
             = Some (JDict (map (\<lambda>kv. (fst kv, JStr (snd kv))) (kernel_env h ov))) \<and>
           map_of (kernel_env h ov) ''GRAALVM_HOME'' = Some h \<and>
           (\<forall>k v. map_of ov k = Some v \<longrightarrow> map_of (kernel_env h ov) k = Some v) \<and>
           (\<forall>v. last_timeout argv = Some v \<longrightarrow>
                map_of (kernel_env h ov) ''IJAVA_TIMEOUT''
                  = Some (if v = ''NO_TIMEOUT'' then ''-1'' else v)) \<and>
           (\<forall>base k v. map_of ov k = Some v \<longrightarrow> map_of (merge_env base ov) k = Some v)"
proof -
  from main_writes [OF assms] obtain a h ov d where
    p: "parse_args same argv = Inr a" and
    h: "graalvm_home_of (apply_defaults a) w = Some h" and
    e: "env (apply_defaults a) = Some ov" and
    t: "txt = dumps 4 True 0 (kernel_json (apply_defaults a) h d ov)"
    by blast
  from parse_args_env [OF p] e
  have ov: "ov = (case last_timeout argv of None \<Rightarrow> [] | Some v \<Rightarrow> [(''IJAVA_TIMEOUT'', resolve_alias v)])"
    by simp
  then have dist: "distinct (map fst ov)" by (simp split: option.splits)
  have f: "json_field (kernel_json (apply_defaults a) h d ov) ''env''
             = Some (JDict (map (\<lambda>kv. (fst kv, JStr (snd kv))) (kernel_env h ov)))"
    by (simp add: kernel_json_def)
  have g: "map_of (kernel_env h ov) ''GRAALVM_HOME'' = Some h"
    using ov by (simp add: kernel_env_empty kernel_env_timeout split: option.splits)
  have o: "\<forall>base k v. map_of ov k = Some v \<longrightarrow> map_of (merge_env base ov) k = Some v"
    using merge_env_override [OF dist] by blast
  then have o': "\<forall>k v. map_of ov k = Some v \<longrightarrow> map_of (kernel_env h ov) k = Some v"
    by (simp add: kernel_env_def)
  have l: "\<forall>v. last_timeout argv = Some v \<longrightarrow>
                map_of (kernel_env h ov) ''IJAVA_TIMEOUT'' = Some (if v = ''NO_TIMEOUT'' then ''-1'' else v)"
    using ov by (simp add: kernel_env_timeout resolve_alias_def)
  from p h e t f g o o' l show ?thesis by blast
qed

theorem descriptor_env_merged_witness:
  "Write_file ''/kernels/GraalVM/kernel.json''
     (dumps 4 True 0 (kernel_json jar_args ''/opt/gvm'' ''/kernels/GraalVM'' [(''IJAVA_TIMEOUT'', ''-1'')]))
     \<in> set (fst (main True [Opt_timeout ''NO_TIMEOUT'', Opt_graalvm ''/opt/gvm''] example_world)) \<and>
   (\<exists>h ov. graalvm_home_of jar_args example_world = Some h \<and> env jar_args = Some ov \<and>
      map_of (kernel_env h ov) ''GRAALVM_HOME'' = Some h \<and>
      map_of (kernel_env h ov) ''IJAVA_TIMEOUT'' = Some ''-1'')"
proof -
  have h: "Write_file ''/kernels/GraalVM/kernel.json''
     (dumps 4 True 0 (kernel_json jar_args ''/opt/gvm'' ''/kernels/GraalVM'' [(''IJAVA_TIMEOUT'', ''-1'')]))
     \<in> set (fst (main True [Opt_timeout ''NO_TIMEOUT'', Opt_graalvm ''/opt/gvm''] example_world))"
    by (simp add: example_run)
  have l: "last_timeout [Opt_timeout ''NO_TIMEOUT'', Opt_graalvm ''/opt/gvm''] = Some ''NO_TIMEOUT''"
    by simp
  from descriptor_env_merged [OF h] l h show ?thesis
    by (auto simp: example_parse example_defaults)
qed

text \<open>
  C8. Two runs that write the descriptor from the same parsed arguments, the same resolved
  runtime home and the same install destination write the same text to the same path,
  whatever else differs between them. The text is what the encoder writes, four blanks per
  level, for the dictionary with its keys in increasing order: \<open>argv\<close>,
  \<open>display_name\<close>, \<open>env\<close>, \<open>interrupt_mode\<close>, \<open>language\<close>, and inside \<open>env\<close>
  the keys in increasing order too.
\<close>

theorem descriptor_text_deterministic:
  assumes "Write_file p1 t1 \<in> set (fst (main same1 argv1 w1))"
    and "Write_file p2 t2 \<in> set (fst (main same2 argv2 w2))"
    and "parse_args same1 argv1 = Inr a" and "parse_args same2 argv2 = Inr a"
    and "graalvm_home_of (apply_defaults a) w1 = graalvm_home_of (apply_defaults a) w2"
    and "install_dest_of (apply_defaults a) w1 (kernel_name (apply_defaults a))
         = install_dest_of (apply_defaults a) w2 (kernel_name (apply_defaults a))"
  shows "t1 = t2 \<and> p1 = p2 \<and>
         (\<exists>h d ov. graalvm_home_of (apply_defaults a) w1 = Some h \<and>
            d = install_dest_of (apply_defaults a) w1 (kernel_name (apply_defaults a)) \<and>
            env (apply_defaults a) = Some ov \<and>
            t1 = dumps 4 False 0
                   (JDict [(''argv'', JList (map JStr (kernel_args (apply_defaults a) h d))),
                           (''display_name'',
                              JStr (if truthy (native a) then ''GraalVM Native'' else ''GraalVM'')),
                           (''env'', JDict (map (\<lambda>kv. (fst kv, JStr (snd kv))) (kernel_env h ov))),
                           (''interrupt_mode'', JStr ''message''),
                           (''language'', JStr ''GraalVM'')]) \<and>
            sorted [''argv'', ''display_name'', ''env'', ''interrupt_mode'', ''language''] \<and>
            sorted (map fst (kernel_env h ov)))"
proof -
  let ?a = "apply_defaults a"
  let ?d = "install_dest_of ?a w1 (kernel_name ?a)"
  from main_writes [OF assms(1)] assms(3) obtain h ov where
    h1: "graalvm_home_of ?a w1 = Some h" and e: "env ?a = Some ov" and
    p1: "p1 = path_join ?d ''kernel.json''" and
    t1: "t1 = dumps 4 True 0 (kernel_json ?a h ?d ov)"
    by auto
  from main_writes [OF assms(2)] assms(4,5,6) h1 e have
    p2: "p2 = path_join ?d ''kernel.json''" and
    t2: "t2 = dumps 4 True 0 (kernel_json ?a h ?d ov)"
    by auto
  from parse_args_env [OF assms(3)] e
  have ov: "ov = [] \<or> ov = [(''IJAVA_TIMEOUT'', resolve_alias (the (last_timeout argv1)))]"
    by (auto split: option.splits)
  have s: "sorted [''argv'', ''display_name'', ''env'', ''interrupt_mode'', ''language'']"
    by simp
  from dumps_kernel_json [OF ov, of ?a h ?d] dumps_kernel_env(2) [OF ov, of h] h1 e p1 p2 t1 t2 s
  show ?thesis by simp
qed

theorem descriptor_text_deterministic_witness:
  "Write_file ''/kernels/GraalVM/kernel.json''
     (dumps 4 True 0 (kernel_json jar_args ''/opt/gvm'' ''/kernels/GraalVM'' [(''IJAVA_TIMEOUT'', ''-1'')]))
     \<in> set (fst (main True [Opt_timeout ''NO_TIMEOUT'', Opt_graalvm ''/opt/gvm''] example_world)) \<and>
   Write_file ''/kernels/GraalVM/kernel.json''
     (dumps 4 True 0 (kernel_json jar_args ''/opt/gvm'' ''/kernels/GraalVM'' [(''IJAVA_TIMEOUT'', ''-1'')]))
     \<in> set (fst (main False [Opt_timeout ''NO_TIMEOUT'', Opt_graalvm ''/opt/gvm'']
                   (example_world\<lparr>path_exists := (\<lambda>p. True)\<rparr>))) \<and>
   dumps 4 True 0 (kernel_json jar_args ''/opt/gvm'' ''/kernels/GraalVM'' [(''IJAVA_TIMEOUT'', ''-1'')])
     = dumps 4 False 0
         (JDict [(''argv'', JList [JStr ''/opt/gvm/bin/java'', JStr ''-jar'',
                                   JStr ''/kernels/GraalVM/IGraalVM.jar'', JStr ''{connection_file}'']),
                 (''display_name'', JStr ''GraalVM''),
                 (''env'', JDict [(''GRAALVM_HOME'', JStr ''/opt/gvm''), (''IJAVA_TIMEOUT'', JStr ''-1'')]),
                 (''interrupt_mode'', JStr ''message''),
                 (''language'', JStr ''GraalVM'')])"
proof -
  let ?t = "dumps 4 True 0 (kernel_json jar_args ''/opt/gvm'' ''/kernels/GraalVM'' [(''IJAVA_TIMEOUT'', ''-1'')])"
  let ?w = "example_world\<lparr>path_exists := (\<lambda>p. True)\<rparr>"
  have r1: "Write_file ''/kernels/GraalVM/kernel.json'' ?t
     \<in> set (fst (main True [Opt_timeout ''NO_TIMEOUT'', Opt_graalvm ''/opt/gvm''] example_world))"
    by (simp add: example_run)
  have r2: "Write_file ''/kernels/GraalVM/kernel.json'' ?t
     \<in> set (fst (main False [Opt_timeout ''NO_TIMEOUT'', Opt_graalvm ''/opt/gvm''] ?w))"
    unfolding main_def example_parse
    by (simp add: example_defaults,
        simp add: jar_args_def graalvm_home_of_def truthy_def example_world_def build_def
          native_image_def install_kernel_def perform_def emit_def path_join_def install_dest_of_def
          install_prefix_def Let_def)
  have p1: "parse_args True [Opt_timeout ''NO_TIMEOUT'', Opt_graalvm ''/opt/gvm''] = Inr (jar_args\<lparr>user := False\<rparr>)"
    and p2: "parse_args False [Opt_timeout ''NO_TIMEOUT'', Opt_graalvm ''/opt/gvm''] = Inr (jar_args\<lparr>user := False\<rparr>)"
    by (rule example_parse)+
  have g: "graalvm_home_of (apply_defaults (jar_args\<lparr>user := False\<rparr>)) example_world
         = graalvm_home_of (apply_defaults (jar_args\<lparr>user := False\<rparr>)) ?w"
    by (simp add: graalvm_home_of_def example_world_def)
  have d: "install_dest_of (apply_defaults (jar_args\<lparr>user := False\<rparr>)) example_world
             (kernel_name (apply_defaults (jar_args\<lparr>user := False\<rparr>)))
         = install_dest_of (apply_defaults (jar_args\<lparr>user := False\<rparr>)) ?w
             (kernel_name (apply_defaults (jar_args\<lparr>user := False\<rparr>)))"
    by (simp add: install_dest_of_def example_world_def install_prefix_def)
  have v: "graalvm_home_of jar_args example_world = Some ''/opt/gvm''"
      "install_dest_of jar_args example_world (kernel_name jar_args) = ''/kernels/GraalVM''"
      "env jar_args = Some [(''IJAVA_TIMEOUT'', ''-1'')]" "native jar_args = None"
    by (simp_all add: graalvm_home_of_def install_dest_of_def example_world_def jar_args_def
        truthy_def kernel_name_def)
  from descriptor_text_deterministic [OF r1 r2 p1 p2 g d] r1 r2 v show ?thesis
    by (simp add: example_defaults kernel_args_def kernel_env_timeout truthy_def)
qed

text \<open>
  C9. Every descriptor the script writes has \<open>interrupt_mode\<close> equal to the string
  \<open>message\<close>, whatever the options were, and the written text holds the entry
  \<open>"interrupt_mode": "message"\<close>.
\<close>

theorem interrupt_mode_message:
  assumes "Write_file p txt \<in> set (fst (main same argv w))"
  shows "\<exists>a h d ov. parse_args same argv = Inr a \<and>
           txt = dumps 4 True 0 (kernel_json (apply_defaults a) h d ov) \<and>
           json_field (kernel_json (apply_defaults a) h d ov) ''interrupt_mode'' = Some (JStr ''message'') \<and>
           contains txt (encode_str ''interrupt_mode'' @ '': '' @ encode_str ''message'')"
proof -
  from main_writes [OF assms] obtain a h d ov where
    p: "parse_args same argv = Inr a" and
    t: "txt = dumps 4 True 0 (kernel_json (apply_defaults a) h d ov)"
    by blast
  have "json_field (kernel_json (apply_defaults a) h d ov) ''interrupt_mode'' = Some (JStr ''message'')"
    by (simp add: kernel_json_def)
  moreover have "contains txt (encode_str ''interrupt_mode'' @ '': '' @ encode_str ''message'')"
    unfolding t kernel_json_def dumps_descriptor by (rule contains_append)
  ultimately show ?thesis using p t by blast
qed

theorem interrupt_mode_message_witness:
  "Write_file ''/kernels/GraalVMNative/kernel.json''
     (dumps 4 True 0 (kernel_json native_args ''/opt/gvm'' ''/kernels/GraalVMNative'' []))
     \<in> set (fst (main True [Opt_native ''python'', Opt_graalvm ''/opt/gvm''] example_world)) \<and>
   contains (dumps 4 True 0 (kernel_json native_args ''/opt/gvm'' ''/kernels/GraalVMNative'' []))
     (encode_str ''interrupt_mode'' @ '': '' @ encode_str ''message'')"
proof -
  have h: "Write_file ''/kernels/GraalVMNative/kernel.json''
     (dumps 4 True 0 (kernel_json native_args ''/opt/gvm'' ''/kernels/GraalVMNative'' []))
     \<in> set (fst (main True [Opt_native ''python'', Opt_graalvm ''/opt/gvm''] example_world))"
    by (simp add: example_run_native)
  from interrupt_mode_message [OF h] h show ?thesis by blast
qed

text \<open>
  C10. \<open>--prefix\<close> with the empty string, on a command line with no other
  install-location option, cannot be told from a command line without it: the run is the
  same, it is a user installation (\<open>args.user\<close> set to true) and the prefix handed to
  the kernel-spec manager is the empty default.
\<close>

theorem empty_prefix_is_user_mode:
  assumes "\<not> list_ex is_location pre" and "\<not> list_ex is_location post"
  shows "main same (pre @ Opt_prefix [] # post) w = main same (pre @ post) w \<and>
         (\<exists>a. parse_args same (pre @ Opt_prefix [] # post) = Inr a \<and>
              active_locations (apply_defaults a) = [Loc_user] \<and>
              install_prefix (apply_defaults a) w = [])"
proof -
  have eq: "parse_args same (pre @ Opt_prefix [] # post) = parse_args same (pre @ post)"
    unfolding parse_args_def
    by (rule consume_empty_prefix [OF assms]) (simp add: defaults_def)
  from assms have "\<not> list_ex is_location (pre @ post)" by simp
  from consume_total_plain [OF this, of same] obtain a where
    a: "parse_args same (pre @ post) = Inr a" "\<not> user a" "\<not> sys_prefix a" "prefix a = []"
    by blast
  then have "active_locations (apply_defaults a) = [Loc_user]"
    and "install_prefix (apply_defaults a) w = []"
    by (simp_all add: active_locations_def apply_defaults_def install_prefix_def)
  with eq a(1) show ?thesis by (simp add: main_def)
qed

theorem empty_prefix_is_user_mode_witness:
  "\<not> list_ex is_location [Opt_native ''python''] \<and> \<not> list_ex is_location [Opt_graalvm ''/opt/gvm''] \<and>
   main True ([Opt_native ''python''] @ Opt_prefix [] # [Opt_graalvm ''/opt/gvm'']) example_world
     = main True [Opt_native ''python'', Opt_graalvm ''/opt/gvm''] example_world \<and>
   Install_kernel_spec ''/src/graalvm'' ''GraalVMNative'' True []
     \<in> set (fst (main True ([Opt_native ''python''] @ Opt_prefix [] # [Opt_graalvm ''/opt/gvm'']) example_world))"
proof -
  have a: "\<not> list_ex is_location [Opt_native ''python'']" by simp
  have b: "\<not> list_ex is_location [Opt_graalvm ''/opt/gvm'']" by simp
  from empty_prefix_is_user_mode [OF a b, of True example_world]
  have "main True ([Opt_native ''python''] @ Opt_prefix [] # [Opt_graalvm ''/opt/gvm'']) example_world
     = main True [Opt_native ''python'', Opt_graalvm ''/opt/gvm''] example_world"
    by simp
  with a b show ?thesis by (simp add: example_run_native)
qed

end
